theory Spec2Isabelle
  imports Complex_Main
begin

section \<open>Errors and collaborators\<close>

text \<open>
  The script \<^verbatim>\<open>src/code/cli/train.py\<close> raises no exception of its own: what it raises are
  Python's built-in errors (a missing dictionary key, a division by zero, a local variable
  read before assignment, an exhausted iterator, a sample larger than its population, an
  index out of range, a quotient too large for a float) and whatever its collaborators (the
  model, the tokenizer, the metric) raise. An error is a value of the type below; a function that can
  raise returns \<open>error + 'a\<close>, with \<open>Inl\<close> for the error.
\<close>

datatype error =
    KeyError string
  | ZeroDivisionError
  | UnboundLocalError string
  | StopIteration
  | ValueError
  | IndexError
  | OverflowError
  | CollaboratorError string

text \<open>
  Token ids are Python integers. A tensor of rank two is a list of rows. A quotient of two
  Python integers (\<^verbatim>\<open>a / b\<close>) is the float nearest to the exact quotient, and raises
  \<^const>\<open>ZeroDivisionError\<close> when \<open>b = 0\<close>. For the two diagnostics that are quotients (the
  accuracy and the generation length) it is modelled by the exact quotient in \<^typ>\<open>real\<close>;
  the quotient of line 448, whose rounding decides the number of epochs, is modelled as a
  double, with the loop controller.
\<close>

type_synonym token_ids = "int list"
type_synonym matrix = "int list list"

definition true_div :: "nat \<Rightarrow> nat \<Rightarrow> error + real" where
  "true_div a b = (if b = 0 then Inl ZeroDivisionError else Inr (real a / real b))"

subsection \<open>The helper module \<^verbatim>\<open>transformer_mt.utils\<close>\<close>

text \<open>
  \<^verbatim>\<open>train.py\<close> imports \<^verbatim>\<open>utils\<close> from the package \<^verbatim>\<open>transformer_mt\<close>, whose source is
  not part of the files under verification. The functions of \<^verbatim>\<open>train.py\<close> take the two helpers
  they call as a parameter, so that what is proved of them holds for every implementation of
  the helpers.
\<close>

record utils =
  utils_pad :: "token_ids list \<Rightarrow> int \<Rightarrow> matrix"
  utils_postprocess_text :: "string list \<Rightarrow> string list \<Rightarrow> string list \<times> string list list"

text \<open>
  Modelled from the spec: \<^verbatim>\<open>utils.pad\<close> is missing from the sources. Section 4.2 of the
  specification: the length of a field is the maximum length over the list, and every sequence
  is right-padded to that length with the pad id.
\<close>

definition pad :: "token_ids list \<Rightarrow> int \<Rightarrow> matrix" where
  "pad seqs pad_id =
     (let L = foldr max (map length seqs) 0
      in map (\<lambda>s. s @ replicate (L - length s) pad_id) seqs)"

text \<open>
  Modelled from the spec: \<^verbatim>\<open>utils.postprocess_text\<close> is missing from the sources. Section 4.4
  of the specification: the normalisation trims the whitespace around every prediction and
  every reference and wraps each reference in a single-element list.
\<close>

definition is_space :: "char \<Rightarrow> bool" where
  "is_space c = (c \<in> set [CHR '' '', CHR 0x09, CHR 0x0A, CHR 0x0B, CHR 0x0C, CHR 0x0D])"

definition strip :: "string \<Rightarrow> string" where
  "strip s = rev (dropWhile is_space (rev (dropWhile is_space s)))"

definition postprocess_text :: "string list \<Rightarrow> string list \<Rightarrow> string list \<times> string list list" where
  "postprocess_text preds labels = (map strip preds, map (\<lambda>label. [strip label]) labels)"

definition spec_utils :: utils where
  "spec_utils = \<lparr>utils_pad = pad, utils_postprocess_text = postprocess_text\<rparr>"

subsection \<open>The tokenizer\<close>

text \<open>
  The tokenizer is a collaborator (\<^verbatim>\<open>T5Tokenizer\<close>). \<^verbatim>\<open>train.py\<close> uses it in four ways:
  \<^item> \<^verbatim>\<open>tokenizer(texts, max_length=m, truncation=True, padding=True)\<close>, on a list of source
    texts (\<open>tok_call\<close>) and, inside \<^verbatim>\<open>tokenizer.as_target_tokenizer()\<close>, on a list of target
    texts (\<open>tok_call_target\<close>); the result holds \<^verbatim>\<open>input_ids\<close> and \<^verbatim>\<open>attention_mask\<close>;
  \<^item> \<^verbatim>\<open>tokenizer(text)["input_ids"]\<close> on one text (\<open>tok_encode\<close>);
  \<^item> \<^verbatim>\<open>batch_decode(rows, skip_special_tokens=True)\<close>, which decodes every row
    (\<open>tok_decode\<close> is the decoding of one row);
  \<^item> \<^verbatim>\<open>tokenizer.pad_token_id\<close>.
\<close>

record batch_encoding =
  enc_input_ids :: matrix
  enc_attention_mask :: matrix

record tokenizer =
  tok_call :: "string list \<Rightarrow> int \<Rightarrow> batch_encoding"
  tok_call_target :: "string list \<Rightarrow> int \<Rightarrow> batch_encoding"
  tok_encode :: "string \<Rightarrow> token_ids"
  tok_decode :: "token_ids \<Rightarrow> string"
  pad_token_id :: int

definition batch_decode :: "tokenizer \<Rightarrow> matrix \<Rightarrow> string list" where
  "batch_decode tk rows = map (tok_decode tk) rows"

section \<open>Sequence preprocessor: \<^verbatim>\<open>preprocess_function\<close>\<close>

text \<open>
  \<^verbatim>\<open>examples["translation"]\<close> is a list of dictionaries from language codes to texts.
  \<^verbatim>\<open>ex[lang]\<close> raises \<^verbatim>\<open>KeyError\<close> on a dictionary without the key; a list comprehension
  stops at the first element that raises.
\<close>

type_synonym raw_pair = "string \<rightharpoonup> string"

record model_inputs =
  mi_input_ids :: matrix
  mi_attention_mask :: matrix
  mi_labels :: matrix

definition getitem :: "(string \<rightharpoonup> 'v) \<Rightarrow> string \<Rightarrow> error + 'v" where
  "getitem d k = (case d k of None \<Rightarrow> Inl (KeyError k) | Some v \<Rightarrow> Inr v)"

fun comprehension :: "('a \<Rightarrow> error + 'b) \<Rightarrow> 'a list \<Rightarrow> error + 'b list" where
  "comprehension f [] = Inr []"
| "comprehension f (x # xs) =
     (case f x of
        Inl e \<Rightarrow> Inl e
      | Inr y \<Rightarrow> (case comprehension f xs of Inl e \<Rightarrow> Inl e | Inr ys \<Rightarrow> Inr (y # ys)))"

definition task_prefix :: string where
  "task_prefix = ''translate English to German: ''"

definition preprocess_function ::
  "raw_pair list \<Rightarrow> string \<Rightarrow> string \<Rightarrow> int \<Rightarrow> tokenizer \<Rightarrow> error + model_inputs" where
  "preprocess_function examples source_lang target_lang max_seq_length tk =
     (case comprehension (\<lambda>ex. map_sum id (\<lambda>s. task_prefix @ s) (getitem ex source_lang)) examples of
        Inl e \<Rightarrow> Inl e
      | Inr inputs \<Rightarrow>
          (case comprehension (\<lambda>ex. getitem ex target_lang) examples of
             Inl e \<Rightarrow> Inl e
           | Inr targets \<Rightarrow>
               (let model_inputs = tok_call tk inputs max_seq_length;
                    targets' = tok_call_target tk targets max_seq_length;
                    target_ids = enc_input_ids targets'
                in Inr \<lparr>mi_input_ids = enc_input_ids model_inputs,
                        mi_attention_mask = enc_attention_mask model_inputs,
                        mi_labels = target_ids\<rparr>)))"

section \<open>Batch collator: \<^verbatim>\<open>collation_function_for_seq2seq\<close>\<close>

text \<open>
  An example of the processed dataset is a dictionary; the collator reads its keys
  \<^verbatim>\<open>input_ids\<close> and \<^verbatim>\<open>labels\<close>. The comparison \<^verbatim>\<open>tensor == pad_token_id\<close> is elementwise and
  gives a tensor of booleans of the same shape.
\<close>

record example =
  ex_input_ids :: token_ids
  ex_labels :: token_ids

record batch =
  input_ids :: matrix
  labels :: matrix
  encoder_padding_mask :: "bool list list"

definition tensor_eq_scalar :: "matrix \<Rightarrow> int \<Rightarrow> bool list list" where
  "tensor_eq_scalar t c = map (map (\<lambda>x. x = c)) t"

definition collation_function_for_seq2seq :: "utils \<Rightarrow> example list \<Rightarrow> int \<Rightarrow> batch" where
  "collation_function_for_seq2seq u exs pad_id =
     (let input_ids_list = map ex_input_ids exs;
          labels_list = map ex_labels exs;
          collated_input_ids = utils_pad u input_ids_list pad_id;
          collated_labels = utils_pad u labels_list pad_id
      in \<lparr>input_ids = collated_input_ids,
          labels = collated_labels,
          encoder_padding_mask = tensor_eq_scalar collated_input_ids pad_id\<rparr>)"

section \<open>Choice of the evaluation split (line 409 of \<^verbatim>\<open>main\<close>)\<close>


section \<open>Diagnostic accuracy (lines 515 to 519 of \<^verbatim>\<open>main\<close>)\<close>

text \<open>
  \<^verbatim>\<open>predictions\<close> is \<^verbatim>\<open>logits.argmax(-1)\<close>, a tensor of the shape of \<^verbatim>\<open>labels\<close>. The
  comparisons are elementwise; \<^verbatim>\<open>masked_select\<close> keeps the entries under a true mask entry,
  row after row; \<^verbatim>\<open>.sum().item()\<close> counts the true entries as a Python integer. The final
  \<^verbatim>\<open>/\<close> is a division of two Python integers.
\<close>

definition tensor_ne_scalar :: "matrix \<Rightarrow> int \<Rightarrow> bool list list" where
  "tensor_ne_scalar t c = map (map (\<lambda>x. x \<noteq> c)) t"

definition tensor_eq :: "matrix \<Rightarrow> matrix \<Rightarrow> bool list list" where
  "tensor_eq s t = map (\<lambda>(r, r'). map (\<lambda>(x, y). x = y) (zip r r')) (zip s t)"

definition masked_select :: "'a list list \<Rightarrow> bool list list \<Rightarrow> 'a list" where
  "masked_select t msk = concat (map (\<lambda>(r, m). map fst (filter snd (zip r m))) (zip t msk))"

definition count_true :: "bool list \<Rightarrow> nat" where
  "count_true bs = length (filter id bs)"

definition train_batch_word_accuracy :: "matrix \<Rightarrow> matrix \<Rightarrow> int \<Rightarrow> error + real" where
  "train_batch_word_accuracy predictions lbls pad_id =
     (let label_nonpad_mask = tensor_ne_scalar lbls pad_id;
          num_words_in_batch = count_true (concat label_nonpad_mask)
      in true_div
           (count_true (masked_select (tensor_eq predictions lbls) label_nonpad_mask))
           num_words_in_batch)"

section \<open>Data loaders\<close>

text \<open>
  A \<^verbatim>\<open>DataLoader\<close> over a dataset cuts the examples, in the order of its sampler, into
  consecutive groups of \<^verbatim>\<open>batch_size\<close> (the last group may be shorter) and collates each
  group. With \<^verbatim>\<open>shuffle=False\<close> the order is the dataset's; with \<^verbatim>\<open>shuffle=True\<close> every
  pass draws a new permutation, which \<open>iter_dataloader\<close> takes as an argument. The constructor
  accepts a positive batch size only.
\<close>

function chunks :: "nat \<Rightarrow> 'a list \<Rightarrow> 'a list list" where
  "chunks n xs = (if n = 0 \<or> xs = [] then [] else take n xs # chunks n (drop n xs))"
  by pat_completeness auto
termination
  by (relation "measure (\<lambda>(n, xs). length xs)") auto

declare chunks.simps [simp del]

record dataloader =
  dl_dataset :: "example list"
  dl_batch_size :: nat
  dl_collate_fn :: "example list \<Rightarrow> batch"

definition DataLoader :: "utils \<Rightarrow> example list \<Rightarrow> nat \<Rightarrow> int \<Rightarrow> dataloader" where
  "DataLoader u ds bs pad_id =
     \<lparr>dl_dataset = ds, dl_batch_size = bs,
      dl_collate_fn = (\<lambda>exs. collation_function_for_seq2seq u exs pad_id)\<rparr>"

definition iter_dataloader :: "(example list \<Rightarrow> example list) \<Rightarrow> dataloader \<Rightarrow> batch list" where
  "iter_dataloader sampler dl =
     map (dl_collate_fn dl) (chunks (dl_batch_size dl) (sampler (dl_dataset dl)))"


section \<open>The state of a run\<close>

text \<open>
  What the script mutates: the model (its parameters, of an abstract type \<open>'m\<close>, and its
  mode flag, set by \<^verbatim>\<open>model.train()\<close> and cleared by \<^verbatim>\<open>model.eval()\<close>), the module-level
  metric object \<^verbatim>\<open>bleu\<close> (the predictions and references added since its last
  \<^verbatim>\<open>compute\<close>), and the outside world: the optimizer updates, the records sent to the
  metrics stream and the checkpoints written, kept in the order in which they happen.
  \<open>OptimizerStep g\<close> is the update made when \<^verbatim>\<open>global_step\<close> was \<open>g\<close>.
\<close>

datatype event =
    OptimizerStep int
  | LogTrain int nat
  | LogAccuracy int real
  | LogEval int real real
  | SavePretrained

record 'm world =
  model_params :: 'm
  training :: bool
  bleu_predictions :: "string list"
  bleu_references :: "string list list"
  events :: "event list"

text \<open>
  The collaborators of a run. \<open>forward_argmax m ids lbls\<close> is \<^verbatim>\<open>logits.argmax(-1)\<close> of the
  forward pass \<^verbatim>\<open>model(input_ids=ids, labels=lbls)\<close>; \<open>optimizer_update\<close> is the effect on
  the parameters of \<^verbatim>\<open>loss.backward(); optimizer.step(); lr_scheduler.step();
  optimizer.zero_grad()\<close>; \<open>generate m ids max_length num_beams\<close> is
  \<^verbatim>\<open>model.generate(ids, max_length=..., num_beams=...)\<close>, which may raise; \<open>bleu_compute\<close> is
  the score that \<^verbatim>\<open>bleu.compute()\<close> gives for the accumulated predictions and references,
  or the error it raises; \<open>shuffle k\<close> is the permutation drawn by the k-th pass over the
  training loader.
\<close>

record 'm env =
  forward_argmax :: "'m \<Rightarrow> matrix \<Rightarrow> matrix \<Rightarrow> matrix"
  optimizer_update :: "'m \<Rightarrow> matrix \<Rightarrow> matrix \<Rightarrow> 'm"
  generate :: "'m \<Rightarrow> matrix \<Rightarrow> int \<Rightarrow> int \<Rightarrow> error + matrix"
  env_tokenizer :: tokenizer
  env_utils :: utils
  bleu_compute :: "string list \<Rightarrow> string list list \<Rightarrow> error + real"
  shuffle :: "nat \<Rightarrow> example list \<Rightarrow> example list"

section \<open>Decoder and evaluator: \<^verbatim>\<open>evaluate_model\<close>\<close>

record evaluation_results =
  bleu :: real
  generation_length :: real

type_synonym last_batch = "matrix \<times> string list \<times> string list list"

text \<open>
  The body of the loop over the batches (lines 318 to 336). The loop variables that outlive
  the loop are \<^verbatim>\<open>n_generated_tokens\<close> and the triple \<^verbatim>\<open>input_ids\<close>, \<^verbatim>\<open>decoded_preds\<close>,
  \<^verbatim>\<open>decoded_labels\<close> of the last batch, unbound (\<open>None\<close>) before the first batch. An
  error ends the loop at once, with the state as it is.
\<close>

fun eval_loop ::
  "'m env \<Rightarrow> int \<Rightarrow> int \<Rightarrow> batch list \<Rightarrow> nat \<times> last_batch option \<Rightarrow> 'm world
     \<Rightarrow> (error + nat \<times> last_batch option) \<times> 'm world" where
  "eval_loop C max_len num_beams [] acc w = (Inr acc, w)"
| "eval_loop C max_len num_beams (b # bs) acc w =
     (case generate C (model_params w) (input_ids b) max_len num_beams of
        Inl e \<Rightarrow> (Inl e, w)
      | Inr generated_tokens \<Rightarrow>
          (let decoded_preds = batch_decode (env_tokenizer C) generated_tokens;
               decoded_labels = batch_decode (env_tokenizer C) (labels b);
               n_generated_tokens =
                 fst acc + sum_list (map (\<lambda>pred. length (tok_encode (env_tokenizer C) pred)) decoded_preds);
               (decoded_preds', decoded_labels') =
                 utils_postprocess_text (env_utils C) decoded_preds decoded_labels;
               w' = w\<lparr>bleu_predictions := bleu_predictions w @ decoded_preds',
                      bleu_references := bleu_references w @ decoded_labels'\<rparr>
           in eval_loop C max_len num_beams bs
                (n_generated_tokens, Some (input_ids b, decoded_preds', decoded_labels')) w'))"

text \<open>
  \<^verbatim>\<open>evaluate_model\<close> itself. Its only call site passes the evaluation loader, built with
  \<^verbatim>\<open>shuffle=False\<close>: a pass yields the dataset in order. \<^verbatim>\<open>bleu.compute()\<close> empties the
  metric object when it succeeds. The dictionary of results is built (line 344 divides) before
  the \<^verbatim>\<open>return\<close> statement reads the variables of the last batch.
\<close>

definition evaluate_model ::
  "'m env \<Rightarrow> dataloader \<Rightarrow> int \<Rightarrow> int \<Rightarrow> 'm world
     \<Rightarrow> (error + evaluation_results \<times> last_batch) \<times> 'm world" where
  "evaluate_model C dataloader max_len num_beams w =
     (case eval_loop C max_len num_beams (iter_dataloader id dataloader) (0, None)
             (w\<lparr>training := False\<rparr>) of
        (Inl e, w1) \<Rightarrow> (Inl e, w1)
      | (Inr (n_generated_tokens, last_seen), w1) \<Rightarrow>
          (let w2 = w1\<lparr>training := True\<rparr> in
           case bleu_compute C (bleu_predictions w2) (bleu_references w2) of
             Inl e \<Rightarrow> (Inl e, w2)
           | Inr score \<Rightarrow>
               (let w3 = w2\<lparr>bleu_predictions := [], bleu_references := []\<rparr> in
                case true_div n_generated_tokens (length (dl_dataset dataloader)) of
                  Inl e \<Rightarrow> (Inl e, w3)
                | Inr ratio \<Rightarrow>
                    (case last_seen of
                       None \<Rightarrow> (Inl (UnboundLocalError ''input_ids''), w3)
                     | Some l \<Rightarrow>
                         (Inr (\<lparr>bleu = score, generation_length = ratio\<rparr>, l), w3)))))"

text \<open>
  What one batch contributes to an evaluation under the parameters \<open>m\<close>, written without the
  loop: the decoded predictions, the number of tokens of their re-tokenizations, and the
  post-processed predictions and references handed to the metric.
\<close>

definition batch_predictions :: "'m env \<Rightarrow> 'm \<Rightarrow> int \<Rightarrow> int \<Rightarrow> batch \<Rightarrow> string list" where
  "batch_predictions C m max_len num_beams b =
     (case generate C m (input_ids b) max_len num_beams of
        Inl e \<Rightarrow> []
      | Inr generated_tokens \<Rightarrow> batch_decode (env_tokenizer C) generated_tokens)"

definition batch_generated_tokens :: "'m env \<Rightarrow> 'm \<Rightarrow> int \<Rightarrow> int \<Rightarrow> batch \<Rightarrow> nat" where
  "batch_generated_tokens C m max_len num_beams b =
     sum_list (map (\<lambda>pred. length (tok_encode (env_tokenizer C) pred))
                 (batch_predictions C m max_len num_beams b))"

definition batch_scored ::
  "'m env \<Rightarrow> 'm \<Rightarrow> int \<Rightarrow> int \<Rightarrow> batch \<Rightarrow> string list \<times> string list list" where
  "batch_scored C m max_len num_beams b =
     utils_postprocess_text (env_utils C) (batch_predictions C m max_len num_beams b)
       (batch_decode (env_tokenizer C) (labels b))"

text \<open>
  The token ids that \<^verbatim>\<open>model.generate\<close> returns for one batch (\<^verbatim>\<open>generated_tokens\<close>, line
  322), and the condition that generation raises on none of the batches of a pass.
\<close>

definition batch_generated :: "'m env \<Rightarrow> 'm \<Rightarrow> int \<Rightarrow> int \<Rightarrow> batch \<Rightarrow> matrix" where
  "batch_generated C m max_len num_beams b =
     (case generate C m (input_ids b) max_len num_beams of
        Inl e \<Rightarrow> []
      | Inr generated_tokens \<Rightarrow> generated_tokens)"

definition generation_succeeds :: "'m env \<Rightarrow> 'm \<Rightarrow> int \<Rightarrow> int \<Rightarrow> batch list \<Rightarrow> bool" where
  "generation_succeeds C m max_len num_beams bs =
     list_all (\<lambda>b. \<not> isl (generate C m (input_ids b) max_len num_beams)) bs"

section \<open>Loop controller: the training run of \<^verbatim>\<open>main\<close>\<close>

text \<open>
  The options of \<^verbatim>\<open>parse_args\<close> that the training loop and the evaluation read, with
  their types (\<^verbatim>\<open>--max_train_steps\<close> defaults to \<^verbatim>\<open>None\<close>; \<^verbatim>\<open>--generation_type\<close> has
  the choices \<^verbatim>\<open>greedy\<close> and \<^verbatim>\<open>beam_search\<close>).
\<close>

datatype generation_type = Greedy | BeamSearch

record args =
  arg_max_seq_length :: int
  arg_batch_size :: int
  arg_num_train_epochs :: int
  arg_max_train_steps :: "int option"
  arg_eval_every_steps :: int
  arg_logging_steps :: int
  arg_generation_type :: generation_type
  arg_beam_size :: int

definition default_args :: args where
  "default_args =
     \<lparr>arg_max_seq_length = 128, arg_batch_size = 8, arg_num_train_epochs = 1,
      arg_max_train_steps = None, arg_eval_every_steps = 5000, arg_logging_steps = 10,
      arg_generation_type = BeamSearch, arg_beam_size = 5\<rparr>"

definition py_mod :: "int \<Rightarrow> int \<Rightarrow> error + int" where
  "py_mod a b = (if b = 0 then Inl ZeroDivisionError else Inr (a mod b))"










text \<open>
  The body of the loop over the batches, lines 483 to 550, up to the test that breaks the
  loop. The state is \<^verbatim>\<open>global_step\<close> and the world. The calls of \<^verbatim>\<open>logger.info\<close> (and the
  random index they draw) and the progress bar are left out.
\<close>

definition train_step ::
  "'m env \<Rightarrow> args \<Rightarrow> dataloader \<Rightarrow> int \<Rightarrow> nat \<Rightarrow> batch \<Rightarrow> int \<times> 'm world
     \<Rightarrow> (error + unit) \<times> (int \<times> 'm world)" where
  "train_step C a eval_dataloader max_train_steps epoch b s =
     (let w = snd s;
          predictions = forward_argmax C (model_params w) (input_ids b) (labels b);
          w1 = w\<lparr>model_params := optimizer_update C (model_params w) (input_ids b) (labels b),
                 events := events w @ [OptimizerStep (fst s)]\<rparr>;
          global_step = fst s + 1;
          w2 = w1\<lparr>events := events w1 @ [LogTrain global_step epoch]\<rparr>
      in case py_mod global_step (arg_logging_steps a) of
           Inl e \<Rightarrow> (Inl e, (global_step, w2))
         | Inr r \<Rightarrow>
             (case (if r = 0
                    then map_sum id
                           (\<lambda>accuracy. w2\<lparr>events := events w2 @ [LogAccuracy global_step accuracy]\<rparr>)
                           (train_batch_word_accuracy predictions (labels b)
                              (pad_token_id (env_tokenizer C)))
                    else Inr w2) of
                Inl e \<Rightarrow> (Inl e, (global_step, w2))
              | Inr w3 \<Rightarrow>
                  (case py_mod global_step (arg_eval_every_steps a) of
                     Inl e \<Rightarrow> (Inl e, (global_step, w3))
                   | Inr r' \<Rightarrow>
                       if r' = 0 \<or> global_step = max_train_steps
                       then
                         (case evaluate_model C eval_dataloader (arg_max_seq_length a)
                                 (arg_beam_size a) w3 of
                            (Inl e, w4) \<Rightarrow> (Inl e, (global_step, w4))
                          | (Inr (eval_results, l), w4) \<Rightarrow>
                              (Inr (),
                               (global_step,
                                w4\<lparr>events := events w4 @
                                     [LogEval global_step (bleu eval_results)
                                        (generation_length eval_results),
                                      SavePretrained]\<rparr>)))
                       else (Inr (), (global_step, w3)))))"






section \<open>The tokenizer's contract and concrete collaborators\<close>

text \<open>
  What the preprocessor relies on when it passes \<^verbatim>\<open>max_length\<close> and
  \<^verbatim>\<open>truncation=True\<close>: for a positive maximum, the tokenizer returns one row per text, and
  every row holds at least one token (the end-of-sequence token) and at most the maximum.
\<close>

definition honours_max_length :: "(string list \<Rightarrow> int \<Rightarrow> batch_encoding) \<Rightarrow> bool" where
  "honours_max_length call \<longleftrightarrow>
     (\<forall>texts m. 0 < m \<longrightarrow>
        length (enc_input_ids (call texts m)) = length texts \<and>
        list_all (\<lambda>row. 0 < length row \<and> int (length row) \<le> m) (enc_input_ids (call texts m)))"

text \<open>
  A small tokenizer in the manner of the T5 one, for the examples: a token per character
  (its code), the end-of-sequence token \<open>1\<close> appended, truncation that keeps the
  end-of-sequence token, padding with \<open>0\<close> to the longest row; decoding skips the two special
  tokens.
\<close>

definition toy_ids :: "string \<Rightarrow> token_ids" where
  "toy_ids s = map (\<lambda>c. int (of_char c)) s"

definition toy_truncate :: "int \<Rightarrow> token_ids \<Rightarrow> token_ids" where
  "toy_truncate m ids = take (nat (m - 1)) ids @ [1]"

definition toy_call :: "string list \<Rightarrow> int \<Rightarrow> batch_encoding" where
  "toy_call texts m =
     (let rows = pad (map (\<lambda>t. toy_truncate m (toy_ids t)) texts) 0
      in \<lparr>enc_input_ids = rows,
          enc_attention_mask = map (map (\<lambda>x. if x = 0 then 0 else 1)) rows\<rparr>)"

definition toy_tokenizer :: tokenizer where
  "toy_tokenizer =
     \<lparr>tok_call = toy_call, tok_call_target = toy_call,
      tok_encode = (\<lambda>s. toy_ids s @ [1]),
      tok_decode = (\<lambda>ids. map (\<lambda>i. char_of i) (filter (\<lambda>i. 1 < i) ids)),
      pad_token_id = 0\<rparr>"

text \<open>
  A model that echoes its input, cut at the maximal length, and fails on a token id that is
  not in its vocabulary (a negative one), as an embedding lookup does; its parameters are the
  number of updates made. A metric that gives the percentage of predictions equal to their
  reference and fails when nothing was added.
\<close>

definition toy_generate :: "nat \<Rightarrow> matrix \<Rightarrow> int \<Rightarrow> int \<Rightarrow> error + matrix" where
  "toy_generate m ids max_len num_beams =
     (if list_ex (list_ex (\<lambda>x. x < 0)) ids then Inl (CollaboratorError ''IndexError'')
      else Inr (map (take (nat max_len)) ids))"

definition toy_bleu :: "string list \<Rightarrow> string list list \<Rightarrow> error + real" where
  "toy_bleu preds refs =
     (if preds = [] then Inl (CollaboratorError ''ValueError'')
      else Inr (100 * real (length (filter (\<lambda>(p, r). r = [p]) (zip preds refs)))
                  / real (length preds)))"

definition toy_env :: "nat env" where
  "toy_env =
     \<lparr>forward_argmax = (\<lambda>m ids lbls. lbls),
      optimizer_update = (\<lambda>m ids lbls. Suc m),
      generate = toy_generate,
      env_tokenizer = toy_tokenizer,
      env_utils = spec_utils,
      bleu_compute = toy_bleu,
      shuffle = (\<lambda>k xs. rotate k xs)\<rparr>"

definition toy_world :: "nat world" where
  "toy_world =
     \<lparr>model_params = 0, training = True, bleu_predictions = [], bleu_references = [],
      events = []\<rparr>"

text \<open>
  Three examples whose echoes are re-tokenized to 2, 5 and 8 tokens; the first two references
  differ from the echo, the third equals it.
\<close>

definition toy_dataset :: "example list" where
  "toy_dataset =
     [\<lparr>ex_input_ids = [97, 1], ex_labels = [98, 1]\<rparr>,
      \<lparr>ex_input_ids = [97, 98, 99, 100, 1], ex_labels = [97, 98, 99, 1]\<rparr>,
      \<lparr>ex_input_ids = [97, 98, 99, 100, 101, 102, 103, 1],
       ex_labels = [97, 98, 99, 100, 101, 102, 103, 1]\<rparr>]"

definition toy_eval_dataloader :: dataloader where
  "toy_eval_dataloader = DataLoader spec_utils toy_dataset 2 0"

text \<open>
  An evaluation set whose second batch holds a token id outside the vocabulary, and an
  empty one.
\<close>

definition toy_bad_dataloader :: dataloader where
  "toy_bad_dataloader =
     DataLoader spec_utils
       [\<lparr>ex_input_ids = [97, 1], ex_labels = [97, 1]\<rparr>,
        \<lparr>ex_input_ids = [97, - 1, 1], ex_labels = [98, 1]\<rparr>] 1 0"

definition toy_empty_dataloader :: dataloader where
  "toy_empty_dataloader = DataLoader spec_utils [] 2 0"





text \<open>The raw pair of the example scenario.\<close>

definition hello_pair :: raw_pair where
  "hello_pair = [''en'' \<mapsto> ''Hello'', ''de'' \<mapsto> ''Hallo'']"

section \<open>Properties of the batch collator\<close>

lemma collated_example:
  "collation_function_for_seq2seq spec_utils
     [\<lparr>ex_input_ids = [97, 1], ex_labels = [98, 1]\<rparr>,
      \<lparr>ex_input_ids = [97, 98, 99, 1], ex_labels = [97, 1]\<rparr>] 0 =
   \<lparr>input_ids = [[97, 1, 0, 0], [97, 98, 99, 1]], labels = [[98, 1], [97, 1]],
    encoder_padding_mask = [[False, False, True, True], [False, False, False, False]]\<rparr>"
  by (simp add: collation_function_for_seq2seq_def tensor_eq_scalar_def Let_def spec_utils_def
      pad_def)

text \<open>
  Claim C8. In every batch that the collator produces, whatever \<^verbatim>\<open>utils.pad\<close> does, the
  padding mask has the shape of \<^verbatim>\<open>input_ids\<close>, and its entry at a position \<open>(i, j)\<close> is true
  exactly when the token at that position is the pad id.
\<close>

theorem encoder_padding_mask_iff:
  "let b = collation_function_for_seq2seq u exs p in
     length (encoder_padding_mask b) = length (input_ids b) \<and>
     (\<forall>i < length (input_ids b).
        length (encoder_padding_mask b ! i) = length (input_ids b ! i) \<and>
        (\<forall>j < length (input_ids b ! i).
           encoder_padding_mask b ! i ! j = (input_ids b ! i ! j = p)))"
  by (simp add: collation_function_for_seq2seq_def tensor_eq_scalar_def Let_def)

text \<open>Two examples of lengths 2 and 4, padded with 0: the mask marks the two padded places.\<close>

theorem encoder_padding_mask_iff_witness:
  "(let b = collation_function_for_seq2seq spec_utils
         [\<lparr>ex_input_ids = [97, 1], ex_labels = [98, 1]\<rparr>,
          \<lparr>ex_input_ids = [97, 98, 99, 1], ex_labels = [97, 1]\<rparr>] 0
    in input_ids b = [[97, 1, 0, 0], [97, 98, 99, 1]] \<and>
       encoder_padding_mask b = [[False, False, True, True], [False, False, False, False]] \<and>
       encoder_padding_mask b ! 0 ! 2 = (input_ids b ! 0 ! 2 = 0) \<and>
       encoder_padding_mask b ! 1 ! 3 = (input_ids b ! 1 ! 3 = 0))"
  using encoder_padding_mask_iff [of spec_utils
         "[\<lparr>ex_input_ids = [97, 1], ex_labels = [98, 1]\<rparr>,
          \<lparr>ex_input_ids = [97, 98, 99, 1], ex_labels = [97, 1]\<rparr>]" 0]
  by (simp add: Let_def collated_example)

section \<open>Properties of the choice of the evaluation split\<close>




section \<open>Properties of the diagnostic accuracy\<close>

lemma count_true_le: "count_true bs \<le> length bs"
  by (simp add: count_true_def)

lemma filter_snd_zip_le: "length (filter snd (zip r m)) \<le> count_true m"
proof (induction m arbitrary: r)
  case Nil
  then show ?case by (simp add: count_true_def)
next
  case (Cons x m)
  then show ?case by (cases r) (auto simp: count_true_def le_SucI)
qed

lemma masked_select_le: "length (masked_select t msk) \<le> count_true (concat msk)"
proof (induction msk arbitrary: t)
  case Nil
  then show ?case by (simp add: masked_select_def count_true_def)
next
  case (Cons m msk)
  show ?case
  proof (cases t)
    case Nil
    then show ?thesis by (simp add: masked_select_def)
  next
    case (Cons r t')
    have "length (masked_select t' msk) \<le> count_true (concat msk)" by (rule Cons.IH)
    moreover have "length (filter snd (zip r m)) \<le> count_true m" by (rule filter_snd_zip_le)
    ultimately show ?thesis using Cons
      by (simp add: masked_select_def count_true_def)
  qed
qed

lemma count_nonpad_zero:
  "count_true (concat (tensor_ne_scalar lbls p)) = 0 \<longleftrightarrow> list_all (list_all (\<lambda>l. l = p)) lbls"
  by (induction lbls) (auto simp: count_true_def tensor_ne_scalar_def list_all_iff filter_empty_conv)

text \<open>
  Claim C3, as amended. On labels with at least one position that is not the pad id, the
  diagnostic accuracy is computed without an error and lies between 0 and 1; on labels that
  all equal the pad id, the division raises \<^verbatim>\<open>ZeroDivisionError\<close>: nothing guards it.
\<close>

theorem accuracy_defined_iff_nonpad_label:
  "(list_all (list_all (\<lambda>l. l = p)) lbls \<longrightarrow>
      train_batch_word_accuracy predictions lbls p = Inl ZeroDivisionError) \<and>
   (\<not> list_all (list_all (\<lambda>l. l = p)) lbls \<longrightarrow>
      (\<exists>accuracy. train_batch_word_accuracy predictions lbls p = Inr accuracy \<and>
         0 \<le> accuracy \<and> accuracy \<le> 1))"
proof -
  let ?n = "count_true (concat (tensor_ne_scalar lbls p))"
  let ?c = "count_true (masked_select (tensor_eq predictions lbls) (tensor_ne_scalar lbls p))"
  have eq: "train_batch_word_accuracy predictions lbls p = true_div ?c ?n"
    by (simp add: train_batch_word_accuracy_def Let_def)
  have "?c \<le> length (masked_select (tensor_eq predictions lbls) (tensor_ne_scalar lbls p))"
    by (rule count_true_le)
  also have "\<dots> \<le> ?n" by (rule masked_select_le)
  finally have le: "?c \<le> ?n" .
  show ?thesis
  proof (cases "list_all (list_all (\<lambda>l. l = p)) lbls")
    case True
    then have "?n = 0" by (simp add: count_nonpad_zero)
    with True eq show ?thesis by (simp add: true_div_def)
  next
    case False
    then have pos: "0 < ?n" using count_nonpad_zero [of lbls p] by simp
    with le have "real ?c / real ?n \<le> 1" by simp
    with False eq pos show ?thesis by (simp add: true_div_def)
  qed
qed

text \<open>
  One of the two labels that are not padding is predicted: the accuracy is one half. A batch
  of padding only raises the error.
\<close>

theorem accuracy_defined_iff_nonpad_label_witness:
  "\<not> list_all (list_all (\<lambda>l. l = (0::int))) [[5, 6, 0]] \<and>
   train_batch_word_accuracy [[5, 7, 0]] [[5, 6, 0]] 0 = Inr (1 / 2) \<and>
   list_all (list_all (\<lambda>l. l = (0::int))) [[0, 0]] \<and>
   train_batch_word_accuracy [[3, 4]] [[0, 0]] 0 = Inl ZeroDivisionError"
  using accuracy_defined_iff_nonpad_label [of 0 "[[0, 0]]" "[[3, 4]]"]
    accuracy_defined_iff_nonpad_label [of 0 "[[5, 6, 0]]" "[[5, 7, 0]]"]
  by (simp add: train_batch_word_accuracy_def true_div_def tensor_ne_scalar_def count_true_def
      tensor_eq_def masked_select_def)

text \<open>
  The claim as stated fails on a batch whose labels are all the pad id: the computation
  raises the division error.
\<close>

theorem accuracy_all_pad_counterexample:
  "train_batch_word_accuracy [[0, 0]] [[0, 0]] 0 = Inl ZeroDivisionError"
  by (simp add: train_batch_word_accuracy_def true_div_def tensor_ne_scalar_def count_true_def)

section \<open>Properties of the sequence preprocessor\<close>

lemma comprehension_map:
  "(\<And>x. x \<in> set xs \<Longrightarrow> f x = Inr (g x)) \<Longrightarrow> comprehension f xs = Inr (map g xs)"
  by (induction xs) simp_all

lemma foldr_max_ge: "x \<in> set xs \<Longrightarrow> x \<le> foldr max xs (0::nat)"
  by (induction xs) (auto simp: max_def)

lemma foldr_max_le: "(\<And>x. x \<in> set xs \<Longrightarrow> x \<le> m) \<Longrightarrow> foldr max xs (0::nat) \<le> m"
  by (induction xs) auto

lemma length_pad: "length (pad seqs p) = length seqs"
  by (simp add: pad_def Let_def)

lemma pad_rectangular:
  "row \<in> set (pad seqs p) \<Longrightarrow> length row = foldr max (map length seqs) 0"
proof -
  assume "row \<in> set (pad seqs p)"
  then obtain s where s: "s \<in> set seqs"
    and row: "row = s @ replicate (foldr max (map length seqs) 0 - length s) p"
    by (auto simp: pad_def Let_def)
  from s have "length s \<le> foldr max (map length seqs) 0"
    by (intro foldr_max_ge) simp
  with row show ?thesis by simp
qed

lemma toy_call_honours_max_length: "honours_max_length toy_call"
  unfolding honours_max_length_def
proof (intro allI impI conjI)
  fix texts :: "string list" and m :: int
  assume m: "0 < m"
  let ?seqs = "map (\<lambda>t. toy_truncate m (toy_ids t)) texts"
  show "length (enc_input_ids (toy_call texts m)) = length texts"
    by (simp add: toy_call_def Let_def length_pad)
  have bound: "\<And>n. n \<in> set (map length ?seqs) \<Longrightarrow> n \<le> nat m"
    using m by (auto simp: toy_truncate_def)
  have L: "foldr max (map length ?seqs) 0 \<le> nat m"
    by (rule foldr_max_le) (rule bound)
  have ne: "\<And>row. row \<in> set (pad ?seqs 0) \<Longrightarrow> row \<noteq> []"
    by (auto simp: pad_def Let_def toy_truncate_def)
  have "\<And>row. row \<in> set (pad ?seqs 0) \<Longrightarrow> 0 < length row \<and> int (length row) \<le> m"
  proof -
    fix row assume row: "row \<in> set (pad ?seqs 0)"
    then have "length row = foldr max (map length ?seqs) 0" by (rule pad_rectangular)
    with L m have "int (length row) \<le> m" by linarith
    moreover from row have "row \<noteq> []" by (rule ne)
    ultimately show "0 < length row \<and> int (length row) \<le> m" by simp
  qed
  then show "list_all (\<lambda>row. 0 < length row \<and> int (length row) \<le> m)
          (enc_input_ids (toy_call texts m))"
    unfolding list_all_iff toy_call_def Let_def by simp
qed

text \<open>
  Claim C9. On examples that have both language keys, the preprocessor tokenizes the source
  texts with the fixed prefix \<^verbatim>\<open>"translate English to German: "\<close> put in front and, in a
  call of its own, the target texts, each with \<^verbatim>\<open>max_length = max_seq_length\<close> and
  truncation. For the pair of \<^verbatim>\<open>"Hello"\<close> and \<^verbatim>\<open>"Hallo"\<close> and the maximal length 10, the
  input ids are the tokenization of \<^verbatim>\<open>"translate English to German: Hello"\<close> and the labels
  that of \<^verbatim>\<open>"Hallo"\<close>; with a tokenizer that honours the maximal length, both have at
  least one and at most 10 tokens.
\<close>

theorem preprocess_function_prefix_truncation:
  "(list_all (\<lambda>ex. ex source_lang \<noteq> None \<and> ex target_lang \<noteq> None) examples \<longrightarrow>
      preprocess_function examples source_lang target_lang max_seq_length tk =
        Inr \<lparr>mi_input_ids = enc_input_ids
                (tok_call tk (map (\<lambda>ex. ''translate English to German: '' @ the (ex source_lang)) examples)
                   max_seq_length),
             mi_attention_mask = enc_attention_mask
                (tok_call tk (map (\<lambda>ex. ''translate English to German: '' @ the (ex source_lang)) examples)
                   max_seq_length),
             mi_labels = enc_input_ids
                (tok_call_target tk (map (\<lambda>ex. the (ex target_lang)) examples) max_seq_length)\<rparr>) \<and>
   preprocess_function [[''en'' \<mapsto> ''Hello'', ''de'' \<mapsto> ''Hallo'']] ''en'' ''de'' 10 tk =
     Inr \<lparr>mi_input_ids = enc_input_ids (tok_call tk [''translate English to German: Hello''] 10),
          mi_attention_mask = enc_attention_mask (tok_call tk [''translate English to German: Hello''] 10),
          mi_labels = enc_input_ids (tok_call_target tk [''Hallo''] 10)\<rparr> \<and>
   (honours_max_length (tok_call tk) \<and> honours_max_length (tok_call_target tk) \<longrightarrow>
      (\<exists>ids lbls.
         enc_input_ids (tok_call tk [''translate English to German: Hello''] 10) = [ids] \<and>
         enc_input_ids (tok_call_target tk [''Hallo''] 10) = [lbls] \<and>
         0 < length ids \<and> length ids \<le> 10 \<and> 0 < length lbls \<and> length lbls \<le> 10))"
proof (intro conjI impI)
  assume keys: "list_all (\<lambda>ex. ex source_lang \<noteq> None \<and> ex target_lang \<noteq> None) examples"
  have src: "comprehension (\<lambda>ex. map_sum id (\<lambda>s. task_prefix @ s) (getitem ex source_lang)) examples =
        Inr (map (\<lambda>ex. task_prefix @ the (ex source_lang)) examples)"
    using keys by (intro comprehension_map) (auto simp: getitem_def list_all_iff)
  have tgt: "comprehension (\<lambda>ex. getitem ex target_lang) examples =
        Inr (map (\<lambda>ex. the (ex target_lang)) examples)"
    using keys by (intro comprehension_map) (auto simp: getitem_def list_all_iff)
  show "preprocess_function examples source_lang target_lang max_seq_length tk =
        Inr \<lparr>mi_input_ids = enc_input_ids
                (tok_call tk (map (\<lambda>ex. ''translate English to German: '' @ the (ex source_lang)) examples)
                   max_seq_length),
             mi_attention_mask = enc_attention_mask
                (tok_call tk (map (\<lambda>ex. ''translate English to German: '' @ the (ex source_lang)) examples)
                   max_seq_length),
             mi_labels = enc_input_ids
                (tok_call_target tk (map (\<lambda>ex. the (ex target_lang)) examples) max_seq_length)\<rparr>"
    unfolding preprocess_function_def src tgt by (simp add: Let_def task_prefix_def)
next
  show "preprocess_function [[''en'' \<mapsto> ''Hello'', ''de'' \<mapsto> ''Hallo'']] ''en'' ''de'' 10 tk =
     Inr \<lparr>mi_input_ids = enc_input_ids (tok_call tk [''translate English to German: Hello''] 10),
          mi_attention_mask = enc_attention_mask (tok_call tk [''translate English to German: Hello''] 10),
          mi_labels = enc_input_ids (tok_call_target tk [''Hallo''] 10)\<rparr>"
    by (simp add: preprocess_function_def getitem_def task_prefix_def Let_def)
next
  assume h: "honours_max_length (tok_call tk) \<and> honours_max_length (tok_call_target tk)"
  let ?a = "enc_input_ids (tok_call tk [''translate English to German: Hello''] 10)"
  let ?b = "enc_input_ids (tok_call_target tk [''Hallo''] 10)"
  have pos: "0 < (10::int)" by simp
  from h have "honours_max_length (tok_call tk)" by simp
  then have "length ?a = length [''translate English to German: Hello''] \<and>
      list_all (\<lambda>row. 0 < length row \<and> int (length row) \<le> 10) ?a"
    unfolding honours_max_length_def using pos by blast
  then have a: "length ?a = 1" "list_all (\<lambda>row. 0 < length row \<and> int (length row) \<le> 10) ?a"
    by simp_all
  from h have "honours_max_length (tok_call_target tk)" by simp
  then have "length ?b = length [''Hallo''] \<and>
      list_all (\<lambda>row. 0 < length row \<and> int (length row) \<le> 10) ?b"
    unfolding honours_max_length_def using pos by blast
  then have b: "length ?b = 1" "list_all (\<lambda>row. 0 < length row \<and> int (length row) \<le> 10) ?b"
    by simp_all
  from a(1) obtain ids where ids: "?a = [ids]" by (auto simp: length_Suc_conv)
  from b(1) obtain lbls where lbls: "?b = [lbls]" by (auto simp: length_Suc_conv)
  from a(2) b(2) ids lbls show "\<exists>ids lbls. ?a = [ids] \<and> ?b = [lbls] \<and>
         0 < length ids \<and> length ids \<le> 10 \<and> 0 < length lbls \<and> length lbls \<le> 10"
    by simp
qed

text \<open>
  With the character tokenizer, the source is cut to nine characters and the end-of-sequence
  token, and the target has six tokens.
\<close>

theorem preprocess_function_prefix_truncation_witness:
  "list_all (\<lambda>ex. ex ''en'' \<noteq> None \<and> ex ''de'' \<noteq> None) [hello_pair] \<and>
   honours_max_length (tok_call toy_tokenizer) \<and>
   honours_max_length (tok_call_target toy_tokenizer) \<and>
   preprocess_function [hello_pair] ''en'' ''de'' 10 toy_tokenizer =
     Inr \<lparr>mi_input_ids = [[116, 114, 97, 110, 115, 108, 97, 116, 101, 1]],
          mi_attention_mask = [[1, 1, 1, 1, 1, 1, 1, 1, 1, 1]],
          mi_labels = [[72, 97, 108, 108, 111, 1]]\<rparr>"
  using preprocess_function_prefix_truncation [of "''en''" "''de''" "[hello_pair]" 10 toy_tokenizer]
    toy_call_honours_max_length
  by (simp add: hello_pair_def toy_tokenizer_def toy_call_def toy_truncate_def toy_ids_def pad_def
      Let_def)

section \<open>Properties of the evaluator\<close>

lemma chunks_Nil: "chunks n [] = []"
  by (simp add: chunks.simps)

lemma eval_loop_frame:
  "eval_loop C L k bs acc w = (r, w') \<Longrightarrow>
     model_params w' = model_params w \<and> training w' = training w \<and> events w' = events w"
proof (induction bs arbitrary: acc w)
  case Nil
  then show ?case by simp
next
  case (Cons b bs)
  show ?case
  proof (cases "generate C (model_params w) (input_ids b) L k")
    case (Inl e)
    with Cons.prems show ?thesis by simp
  next
    case (Inr g)
    with Cons.prems Cons.IH show ?thesis
      by (fastforce simp: Let_def split: prod.splits)
  qed
qed

lemma eval_loop_result:
  "eval_loop C L k bs acc w = (Inr (n, l), w') \<Longrightarrow>
     n = fst acc + sum_list (map (batch_generated_tokens C (model_params w) L k) bs) \<and>
     bleu_predictions w' =
       bleu_predictions w @ concat (map (\<lambda>b. fst (batch_scored C (model_params w) L k b)) bs) \<and>
     bleu_references w' =
       bleu_references w @ concat (map (\<lambda>b. snd (batch_scored C (model_params w) L k b)) bs) \<and>
     (bs = [] \<longrightarrow> l = snd acc) \<and> (bs \<noteq> [] \<longrightarrow> l \<noteq> None)"
proof (induction bs arbitrary: acc w)
  case Nil
  then show ?case by simp
next
  case (Cons b bs)
  show ?case
  proof (cases "generate C (model_params w) (input_ids b) L k")
    case (Inl e)
    with Cons.prems show ?thesis by simp
  next
    case (Inr g)
    obtain ps rs where pr: "batch_scored C (model_params w) L k b = (ps, rs)"
      by (cases "batch_scored C (model_params w) L k b")
    then have pp: "utils_postprocess_text (env_utils C) (batch_decode (env_tokenizer C) g)
         (batch_decode (env_tokenizer C) (labels b)) = (ps, rs)"
      using Inr by (simp add: batch_scored_def batch_predictions_def)
    let ?w = "w\<lparr>bleu_predictions := bleu_predictions w @ ps,
                 bleu_references := bleu_references w @ rs\<rparr>"
    let ?n = "fst acc + sum_list (map (\<lambda>pred. length (tok_encode (env_tokenizer C) pred))
                 (batch_decode (env_tokenizer C) g))"
    from Cons.prems Inr pp
    have run: "eval_loop C L k bs (?n, Some (input_ids b, ps, rs)) ?w = (Inr (n, l), w')"
      by (simp add: Let_def)
    have tok: "batch_generated_tokens C (model_params w) L k b =
        sum_list (map (\<lambda>pred. length (tok_encode (env_tokenizer C) pred))
                 (batch_decode (env_tokenizer C) g))"
      using Inr by (simp add: batch_generated_tokens_def batch_predictions_def)
    from Cons.IH [OF run] tok pr show ?thesis
      by (cases bs) auto
  qed
qed

lemma sum_list_map_concat:
  "sum_list (map f (concat xss)) = sum_list (map (\<lambda>xs. sum_list (map f xs)) xss)"
  by (induction xss) simp_all

lemma eval_loop_empty_dataset:
  "dl_dataset dl = [] \<Longrightarrow> iter_dataloader id dl = []"
  by (simp add: iter_dataloader_def chunks_Nil)

text \<open>
  Claim C2, as amended. An evaluation on an empty evaluation set always fails and never
  returns a result: the loop has no batch to run, the model is put back into training mode,
  and then either \<^verbatim>\<open>bleu.compute()\<close> raises, or the quotient \<^verbatim>\<open>0 / 0\<close> of line 344 raises
  \<^verbatim>\<open>ZeroDivisionError\<close>. Nothing tests for an empty set, and no error of its own is raised
  for it.
\<close>

theorem evaluate_model_empty_fails:
  "dl_dataset dataloader = [] \<Longrightarrow>
     fst (evaluate_model C dataloader max_len num_beams w) =
       (case bleu_compute C (bleu_predictions w) (bleu_references w) of
          Inl e \<Rightarrow> Inl e
        | Inr score \<Rightarrow> Inl ZeroDivisionError) \<and>
     (\<exists>e. fst (evaluate_model C dataloader max_len num_beams w) = Inl e) \<and>
     training (snd (evaluate_model C dataloader max_len num_beams w))"
  by (simp add: evaluate_model_def eval_loop_empty_dataset true_div_def Let_def
      split: sum.splits)

text \<open>
  On the empty loader, with a metric that rejects an empty corpus, the evaluation fails with
  the metric's error, and the model is in training mode afterwards.
\<close>

theorem evaluate_model_empty_fails_witness:
  "dl_dataset toy_empty_dataloader = [] \<and>
   fst (evaluate_model toy_env toy_empty_dataloader 128 5 toy_world) =
     Inl (CollaboratorError ''ValueError'') \<and>
   training (snd (evaluate_model toy_env toy_empty_dataloader 128 5 toy_world))"
  using evaluate_model_empty_fails [of toy_empty_dataloader toy_env 128 5 toy_world]
  by (simp add: toy_empty_dataloader_def DataLoader_def toy_env_def toy_world_def toy_bleu_def)

text \<open>
  The claim as stated names an error for the empty evaluation set. With a metric that scores
  an empty corpus, the error of the evaluation on the empty loader is the division error of
  the quotient \<^verbatim>\<open>0 / 0\<close> itself.
\<close>

theorem evaluate_model_empty_division_error_counterexample:
  "dl_dataset toy_empty_dataloader = [] \<and>
   fst (evaluate_model (toy_env\<lparr>bleu_compute := \<lambda>preds refs. Inr 0\<rparr>) toy_empty_dataloader 128 5
          toy_world) = Inl ZeroDivisionError"
  by (simp add: evaluate_model_def iter_dataloader_def chunks_Nil true_div_def
      toy_empty_dataloader_def DataLoader_def toy_env_def toy_world_def Let_def)

text \<open>
  Claim C4, as amended. The model is in inference mode as long as the loop over the batches
  runs. It is put back into training mode exactly when that loop ends without an error (also
  when the metric or the final division fails afterwards); when the loop is ended by an
  error, that error leaves \<^verbatim>\<open>evaluate_model\<close> with the model still in inference mode.
\<close>

theorem evaluate_model_training_restored_iff:
  "(case fst (eval_loop C max_len num_beams (iter_dataloader id dataloader) (0, None)
               (w\<lparr>training := False\<rparr>)) of
      Inl e \<Rightarrow>
        fst (evaluate_model C dataloader max_len num_beams w) = Inl e \<and>
        \<not> training (snd (evaluate_model C dataloader max_len num_beams w))
    | Inr acc \<Rightarrow> training (snd (evaluate_model C dataloader max_len num_beams w))) \<and>
   \<not> training (snd (eval_loop C max_len num_beams (iter_dataloader id dataloader) (0, None)
                     (w\<lparr>training := False\<rparr>)))"
proof -
  obtain r w1 where run: "eval_loop C max_len num_beams (iter_dataloader id dataloader) (0, None)
               (w\<lparr>training := False\<rparr>) = (r, w1)"
    by (cases "eval_loop C max_len num_beams (iter_dataloader id dataloader) (0, None)
               (w\<lparr>training := False\<rparr>)")
  from eval_loop_frame [OF run] have w1: "\<not> training w1" by simp
  show ?thesis
  proof (cases r)
    case (Inl e)
    with run w1 show ?thesis by (simp add: evaluate_model_def)
  next
    case (Inr acc)
    with run w1 show ?thesis
      by (cases acc) (simp add: evaluate_model_def Let_def split: sum.splits option.splits)
  qed
qed

lemma toy_bad_batches:
  "iter_dataloader id toy_bad_dataloader =
     [\<lparr>input_ids = [[97, 1]], labels = [[97, 1]], encoder_padding_mask = [[False, False]]\<rparr>,
      \<lparr>input_ids = [[97, - 1, 1]], labels = [[98, 1]],
       encoder_padding_mask = [[False, False, False]]\<rparr>]"
  by (simp add: iter_dataloader_def toy_bad_dataloader_def DataLoader_def chunks.simps
      collation_function_for_seq2seq_def spec_utils_def pad_def tensor_eq_scalar_def Let_def)

text \<open>
  The claim as stated fails when generation raises in the second batch: the model was in
  training mode before the call and is in inference mode after it.
\<close>

theorem evaluate_model_leaves_eval_mode_counterexample:
  "training toy_world \<and>
   fst (evaluate_model toy_env toy_bad_dataloader 128 5 toy_world) =
     Inl (CollaboratorError ''IndexError'') \<and>
   \<not> training (snd (evaluate_model toy_env toy_bad_dataloader 128 5 toy_world))"
  by (simp add: evaluate_model_def toy_bad_batches toy_env_def toy_world_def toy_generate_def
      toy_tokenizer_def batch_decode_def spec_utils_def postprocess_text_def Let_def)

lemma toy_eval_batches:
  "iter_dataloader id toy_eval_dataloader =
     [\<lparr>input_ids = [[97, 1, 0, 0, 0], [97, 98, 99, 100, 1]],
       labels = [[98, 1, 0, 0], [97, 98, 99, 1]],
       encoder_padding_mask =
         [[False, False, True, True, True], [False, False, False, False, False]]\<rparr>,
      \<lparr>input_ids = [[97, 98, 99, 100, 101, 102, 103, 1]],
       labels = [[97, 98, 99, 100, 101, 102, 103, 1]],
       encoder_padding_mask = [[False, False, False, False, False, False, False, False]]\<rparr>]"
  by (simp add: iter_dataloader_def toy_eval_dataloader_def toy_dataset_def DataLoader_def
      chunks.simps collation_function_for_seq2seq_def spec_utils_def pad_def tensor_eq_scalar_def
      Let_def)

lemma strip_letters [simp]:
  "strip ''a'' = ''a''" "strip ''b'' = ''b''" "strip ''abc'' = ''abc''" "strip ''abcd'' = ''abcd''"
  "strip ''abcdefg'' = ''abcdefg''"
  by (simp_all add: strip_def is_space_def)

lemma toy_eval_run:
  "evaluate_model toy_env toy_eval_dataloader 128 5 toy_world =
     (Inr (\<lparr>bleu = 100 / 3, generation_length = 5\<rparr>,
           ([[97, 98, 99, 100, 101, 102, 103, 1]], [''abcdefg''], [[''abcdefg'']])),
      toy_world)"
  unfolding evaluate_model_def toy_eval_batches
  by (simp add: toy_env_def toy_world_def toy_generate_def
      toy_tokenizer_def toy_ids_def batch_decode_def spec_utils_def postprocess_text_def
      toy_bleu_def true_div_def toy_eval_dataloader_def toy_dataset_def DataLoader_def Let_def
      char_of_def)

text \<open>
  When generation succeeds on every batch, the loop over the batches runs to its end; on a
  non-empty evaluation set the evaluation then ends as \<^verbatim>\<open>bleu.compute()\<close> does on the
  corpus accumulated.
\<close>

lemma eval_loop_total:
  "generation_succeeds C (model_params w) L k bs \<Longrightarrow>
     \<exists>n l w'. eval_loop C L k bs acc w = (Inr (n, l), w')"
proof (induction bs arbitrary: acc w)
  case Nil
  then show ?case by (cases acc) simp
next
  case (Cons b bs)
  from Cons.prems obtain g where g: "generate C (model_params w) (input_ids b) L k = Inr g"
    by (cases "generate C (model_params w) (input_ids b) L k")
      (simp_all add: generation_succeeds_def)
  from Cons.prems have rest: "\<And>w'. model_params w' = model_params w \<Longrightarrow>
      generation_succeeds C (model_params w') L k bs"
    by (simp add: generation_succeeds_def)
  show ?case
    using g by (simp add: Let_def split: prod.splits) (auto intro!: Cons.IH rest)
qed

lemma iter_dataloader_nonempty:
  "dl_dataset dl \<noteq> [] \<Longrightarrow> 0 < dl_batch_size dl \<Longrightarrow> iter_dataloader id dl \<noteq> []"
  by (simp add: iter_dataloader_def chunks.simps)

lemma evaluate_model_outcome:
  assumes ds: "dl_dataset dl \<noteq> []" and bs: "0 < dl_batch_size dl"
    and gen: "generation_succeeds C (model_params w) L k (iter_dataloader id dl)"
  defines "P \<equiv> bleu_predictions w @
      concat (map (\<lambda>b. fst (batch_scored C (model_params w) L k b)) (iter_dataloader id dl))"
    and "R \<equiv> bleu_references w @
      concat (map (\<lambda>b. snd (batch_scored C (model_params w) L k b)) (iter_dataloader id dl))"
    and "N \<equiv> sum_list (map (batch_generated_tokens C (model_params w) L k) (iter_dataloader id dl))"
  shows "\<exists>l. fst (evaluate_model C dl L k w) =
      (case bleu_compute C P R of
         Inl e \<Rightarrow> Inl e
       | Inr score \<Rightarrow>
           Inr (\<lparr>bleu = score, generation_length = real N / real (length (dl_dataset dl))\<rparr>, l))"
    and "bleu_predictions (snd (evaluate_model C dl L k w)) =
      (if isl (bleu_compute C P R) then P else [])"
    and "bleu_references (snd (evaluate_model C dl L k w)) =
      (if isl (bleu_compute C P R) then R else [])"
proof -
  let ?bs = "iter_dataloader id dl"
  let ?w0 = "w\<lparr>training := False\<rparr>"
  from gen have "generation_succeeds C (model_params ?w0) L k ?bs" by simp
  from eval_loop_total [OF this] obtain n l w1
    where run: "eval_loop C L k ?bs (0, None) ?w0 = (Inr (n, l), w1)" by blast
  from iter_dataloader_nonempty [OF ds bs] have ne: "?bs \<noteq> []" .
  from eval_loop_result [OF run] ne
  have n: "n = N" and p: "bleu_predictions w1 = P" and r: "bleu_references w1 = R"
    and l: "l \<noteq> None"
    by (simp_all add: P_def R_def N_def)
  from l obtain l' where l': "l = Some l'" by (cases l) auto
  have len: "length (dl_dataset dl) \<noteq> 0" using ds by simp
  have ev: "evaluate_model C dl L k w =
      (case bleu_compute C P R of
         Inl e \<Rightarrow> (Inl e, w1\<lparr>training := True\<rparr>)
       | Inr score \<Rightarrow>
           (Inr (\<lparr>bleu = score, generation_length = real N / real (length (dl_dataset dl))\<rparr>, l'),
            w1\<lparr>training := True, bleu_predictions := [], bleu_references := []\<rparr>))"
    unfolding evaluate_model_def run
    using len by (simp add: Let_def p r n l' true_div_def split: sum.splits)
  show "\<exists>l. fst (evaluate_model C dl L k w) =
      (case bleu_compute C P R of
         Inl e \<Rightarrow> Inl e
       | Inr score \<Rightarrow>
           Inr (\<lparr>bleu = score, generation_length = real N / real (length (dl_dataset dl))\<rparr>, l))"
    unfolding ev by (intro exI [of _ l']) (simp split: sum.splits)
  show "bleu_predictions (snd (evaluate_model C dl L k w)) =
      (if isl (bleu_compute C P R) then P else [])"
    unfolding ev by (simp add: p split: sum.splits)
  show "bleu_references (snd (evaluate_model C dl L k w)) =
      (if isl (bleu_compute C P R) then R else [])"
    unfolding ev by (simp add: r split: sum.splits)
qed

lemma toy_eval_generation_succeeds:
  "generation_succeeds toy_env 0 L k (iter_dataloader id toy_eval_dataloader)"
  by (simp add: generation_succeeds_def toy_eval_batches toy_env_def toy_generate_def)

lemma toy_eval_premises:
  "dl_dataset toy_eval_dataloader \<noteq> []" "0 < dl_batch_size toy_eval_dataloader"
  "length (dl_dataset toy_eval_dataloader) = 3"
  by (simp_all add: toy_eval_dataloader_def DataLoader_def toy_dataset_def)

lemma toy_eval_predictions:
  "concat (map (batch_predictions toy_env 0 128 5) (iter_dataloader id toy_eval_dataloader)) =
     [''a'', ''abcd'', ''abcdefg'']"
  by (simp add: toy_eval_batches batch_predictions_def toy_env_def toy_generate_def
      toy_tokenizer_def batch_decode_def char_of_def)

lemma toy_eval_scored:
  "map (batch_scored toy_env 0 128 5) (iter_dataloader id toy_eval_dataloader) =
     [([''a'', ''abcd''], [[''b''], [''abc'']]), ([''abcdefg''], [[''abcdefg'']])]"
  by (simp add: toy_eval_batches batch_scored_def batch_predictions_def toy_env_def
      toy_generate_def toy_tokenizer_def batch_decode_def spec_utils_def postprocess_text_def
      char_of_def)

lemma toy_eval_corpus:
  "concat (map (\<lambda>b. fst (batch_scored toy_env 0 128 5 b))
                (iter_dataloader id toy_eval_dataloader)) = [''a'', ''abcd'', ''abcdefg'']"
  "concat (map (\<lambda>b. snd (batch_scored toy_env 0 128 5 b))
                (iter_dataloader id toy_eval_dataloader)) = [[''b''], [''abc''], [''abcdefg'']]"
  using toy_eval_scored by (simp_all add: toy_eval_batches)

lemma toy_bleu_corpus:
  "toy_bleu [''a'', ''abcd'', ''abcdefg''] [[''b''], [''abc''], [''abcdefg'']] = Inr (100 / 3)"
  by (simp add: toy_bleu_def)

text \<open>
  Claim C7, as amended. On a non-empty evaluation set on whose batches generation succeeds,
  an evaluation gives a generation length exactly when \<^verbatim>\<open>bleu.compute()\<close> gives a score, and
  fails with the error of \<^verbatim>\<open>bleu.compute()\<close> otherwise. That generation length is the number
  of tokens obtained by tokenizing the decoded predictions again (line 332), summed over the
  predictions of all batches and divided by the number of examples of the evaluation set.
\<close>

theorem generation_length_per_example:
  assumes "dl_dataset dataloader \<noteq> []" and "0 < dl_batch_size dataloader"
    and "generation_succeeds C (model_params w) max_len num_beams (iter_dataloader id dataloader)"
  shows "map_sum id (\<lambda>(res, l). generation_length res)
       (fst (evaluate_model C dataloader max_len num_beams w)) =
     map_sum id
       (\<lambda>score.
          real (sum_list (map (\<lambda>pred. length (tok_encode (env_tokenizer C) pred))
                  (concat (map (batch_predictions C (model_params w) max_len num_beams)
                     (iter_dataloader id dataloader)))))
          / real (length (dl_dataset dataloader)))
       (bleu_compute C
         (bleu_predictions w @
            concat (map (\<lambda>b. fst (batch_scored C (model_params w) max_len num_beams b))
                      (iter_dataloader id dataloader)))
         (bleu_references w @
            concat (map (\<lambda>b. snd (batch_scored C (model_params w) max_len num_beams b))
                      (iter_dataloader id dataloader))))"
proof -
  let ?bs = "iter_dataloader id dataloader"
  have total: "sum_list (map (batch_generated_tokens C (model_params w) max_len num_beams) ?bs) =
      sum_list (map (\<lambda>pred. length (tok_encode (env_tokenizer C) pred))
               (concat (map (batch_predictions C (model_params w) max_len num_beams) ?bs)))"
    by (simp add: sum_list_map_concat comp_def batch_generated_tokens_def [abs_def])
  from evaluate_model_outcome(1) [OF assms] obtain l
    where res: "fst (evaluate_model C dataloader max_len num_beams w) =
      (case bleu_compute C
         (bleu_predictions w @
            concat (map (\<lambda>b. fst (batch_scored C (model_params w) max_len num_beams b))
                      (iter_dataloader id dataloader)))
         (bleu_references w @
            concat (map (\<lambda>b. snd (batch_scored C (model_params w) max_len num_beams b))
                      (iter_dataloader id dataloader))) of
         Inl e \<Rightarrow> Inl e
       | Inr score \<Rightarrow>
           Inr (\<lparr>bleu = score, generation_length =
                  real (sum_list (map (batch_generated_tokens C (model_params w) max_len num_beams)
                          (iter_dataloader id dataloader)))
                  / real (length (dl_dataset dataloader))\<rparr>, l))"
    by blast
  show ?thesis unfolding res total by (simp split: sum.splits)
qed

text \<open>
  Three examples in two batches, with predictions that are tokenized again to 2, 5 and 8
  tokens: the result is \<open>15 / 3 = 5\<close>.
\<close>

theorem generation_length_per_example_witness:
  "dl_dataset toy_eval_dataloader \<noteq> [] \<and> 0 < dl_batch_size toy_eval_dataloader \<and>
   generation_succeeds toy_env (model_params toy_world) 128 5
     (iter_dataloader id toy_eval_dataloader) \<and>
   map (\<lambda>pred. length (tok_encode (env_tokenizer toy_env) pred))
     (concat (map (batch_predictions toy_env (model_params toy_world) 128 5)
        (iter_dataloader id toy_eval_dataloader))) = [2, 5, 8] \<and>
   length (dl_dataset toy_eval_dataloader) = 3 \<and>
   length (iter_dataloader id toy_eval_dataloader) = 2 \<and>
   map_sum id (\<lambda>(res, l). generation_length res)
     (fst (evaluate_model toy_env toy_eval_dataloader 128 5 toy_world)) = Inr 5"
proof -
  have w: "model_params toy_world = 0" "bleu_predictions toy_world = []"
    "bleu_references toy_world = []"
    by (simp_all add: toy_world_def)
  have c: "bleu_compute toy_env = toy_bleu" by (simp add: toy_env_def)
  have gen: "generation_succeeds toy_env (model_params toy_world) 128 5
      (iter_dataloader id toy_eval_dataloader)"
    unfolding w by (rule toy_eval_generation_succeeds)
  have lens: "map (\<lambda>pred. length (tok_encode (env_tokenizer toy_env) pred))
      [''a'', ''abcd'', ''abcdefg''] = [2, 5, 8]"
    by (simp add: toy_env_def toy_tokenizer_def toy_ids_def)
  have k: "length (iter_dataloader id toy_eval_dataloader) = 2"
    by (simp add: toy_eval_batches)
  from generation_length_per_example [OF toy_eval_premises(1) toy_eval_premises(2) gen]
  have "map_sum id (\<lambda>(res, l). generation_length res)
     (fst (evaluate_model toy_env toy_eval_dataloader 128 5 toy_world)) = Inr 5"
    unfolding w c toy_eval_corpus toy_eval_predictions lens toy_eval_premises(3)
    by (simp add: toy_bleu_corpus)
  with gen lens k toy_eval_premises show ?thesis
    unfolding w toy_eval_predictions by simp
qed

lemma toy_eval_run_short:
  "fst (evaluate_model toy_env toy_eval_dataloader 3 5 toy_world) =
     Inr (\<lparr>bleu = 100 / 3, generation_length = 10 / 3\<rparr>,
          ([[97, 98, 99, 100, 101, 102, 103, 1]], [''abc''], [[''abcdefg'']]))"
  unfolding evaluate_model_def toy_eval_batches
  by (simp add: toy_env_def toy_world_def toy_generate_def
      toy_tokenizer_def toy_ids_def batch_decode_def spec_utils_def postprocess_text_def
      toy_bleu_def true_div_def toy_eval_dataloader_def toy_dataset_def DataLoader_def Let_def
      char_of_def strip_def is_space_def)

text \<open>
  The claim as stated takes the generated tokens for the numerator. With \<^verbatim>\<open>max_length\<close> 3,
  each of the three rows that generation returns has 3 token ids (2 of them are not padding in
  the first row), yet the generation length is \<open>10 / 3\<close>: the decoded predictions
  \<^verbatim>\<open>a\<close>, \<^verbatim>\<open>abc\<close> and \<^verbatim>\<open>abc\<close> are tokenized again to 2, 4 and 4 tokens, the
  end-of-sequence token included.
\<close>

theorem generation_length_retokenized_counterexample:
  "map (batch_generated toy_env (model_params toy_world) 3 5)
     (iter_dataloader id toy_eval_dataloader) =
     [[[97, 1, 0], [97, 98, 99]], [[97, 98, 99]]] \<and>
   length (dl_dataset toy_eval_dataloader) = 3 \<and>
   map_sum id (\<lambda>(res, l). generation_length res)
     (fst (evaluate_model toy_env toy_eval_dataloader 3 5 toy_world)) = Inr (10 / 3)"
  unfolding toy_eval_run_short toy_eval_batches
  by (simp add: batch_generated_def toy_env_def toy_generate_def toy_world_def
      toy_eval_premises(3))

text \<open>
  Claim C5. On a non-empty evaluation set on whose batches generation succeeds, the outcome
  of an evaluation is the outcome of a single \<^verbatim>\<open>bleu.compute()\<close> on what the metric object
  held before the call followed by the post-processed predictions and references of all
  batches in order: the score of the result is the score that it gives, and the evaluation
  fails with its error when it fails. After an evaluation that returned a result the metric
  object is empty, so that the next evaluation starts from nothing.
\<close>

theorem bleu_computed_over_accumulated_corpus:
  assumes "dl_dataset dataloader \<noteq> []" and "0 < dl_batch_size dataloader"
    and "generation_succeeds C (model_params w) max_len num_beams (iter_dataloader id dataloader)"
  shows "map_sum id (\<lambda>(res, l). bleu res) (fst (evaluate_model C dataloader max_len num_beams w)) =
       bleu_compute C
         (bleu_predictions w @
            concat (map (\<lambda>b. fst (batch_scored C (model_params w) max_len num_beams b))
                      (iter_dataloader id dataloader)))
         (bleu_references w @
            concat (map (\<lambda>b. snd (batch_scored C (model_params w) max_len num_beams b))
                      (iter_dataloader id dataloader))) \<and>
     (\<not> isl (fst (evaluate_model C dataloader max_len num_beams w)) \<longrightarrow>
        bleu_predictions (snd (evaluate_model C dataloader max_len num_beams w)) = [] \<and>
        bleu_references (snd (evaluate_model C dataloader max_len num_beams w)) = [])"
proof -
  from evaluate_model_outcome(1) [OF assms] obtain l
    where res: "fst (evaluate_model C dataloader max_len num_beams w) =
      (case bleu_compute C
         (bleu_predictions w @
            concat (map (\<lambda>b. fst (batch_scored C (model_params w) max_len num_beams b))
                      (iter_dataloader id dataloader)))
         (bleu_references w @
            concat (map (\<lambda>b. snd (batch_scored C (model_params w) max_len num_beams b))
                      (iter_dataloader id dataloader))) of
         Inl e \<Rightarrow> Inl e
       | Inr score \<Rightarrow>
           Inr (\<lparr>bleu = score, generation_length =
                  real (sum_list (map (batch_generated_tokens C (model_params w) max_len num_beams)
                          (iter_dataloader id dataloader)))
                  / real (length (dl_dataset dataloader))\<rparr>, l))"
    by blast
  show ?thesis
    unfolding res evaluate_model_outcome(2) [OF assms] evaluate_model_outcome(3) [OF assms]
    by (simp split: sum.splits)
qed

text \<open>
  With the exact-match metric, the score over the three examples is \<open>100 / 3\<close>, while the
  two batches alone score 0 and 100, of mean 50.
\<close>

theorem bleu_computed_over_accumulated_corpus_witness:
  "dl_dataset toy_eval_dataloader \<noteq> [] \<and> 0 < dl_batch_size toy_eval_dataloader \<and>
   generation_succeeds toy_env (model_params toy_world) 128 5
     (iter_dataloader id toy_eval_dataloader) \<and>
   map_sum id (\<lambda>(res, l). bleu res)
     (fst (evaluate_model toy_env toy_eval_dataloader 128 5 toy_world)) = Inr (100 / 3) \<and>
   toy_bleu [''a'', ''abcd'', ''abcdefg''] [[''b''], [''abc''], [''abcdefg'']] = Inr (100 / 3) \<and>
   map (\<lambda>(preds, refs). toy_bleu preds refs)
     (map (batch_scored toy_env 0 128 5) (iter_dataloader id toy_eval_dataloader)) =
     [Inr 0, Inr 100] \<and>
   bleu_predictions (snd (evaluate_model toy_env toy_eval_dataloader 128 5 toy_world)) = [] \<and>
   bleu_references (snd (evaluate_model toy_env toy_eval_dataloader 128 5 toy_world)) = []"
proof -
  have w: "model_params toy_world = 0" "bleu_predictions toy_world = []"
    "bleu_references toy_world = []"
    by (simp_all add: toy_world_def)
  have c: "bleu_compute toy_env = toy_bleu" by (simp add: toy_env_def)
  have gen: "generation_succeeds toy_env (model_params toy_world) 128 5
      (iter_dataloader id toy_eval_dataloader)"
    unfolding w by (rule toy_eval_generation_succeeds)
  from bleu_computed_over_accumulated_corpus [OF toy_eval_premises(1) toy_eval_premises(2) gen]
  have score: "map_sum id (\<lambda>(res, l). bleu res)
       (fst (evaluate_model toy_env toy_eval_dataloader 128 5 toy_world)) = Inr (100 / 3)"
    and emptied: "\<not> isl (fst (evaluate_model toy_env toy_eval_dataloader 128 5 toy_world)) \<longrightarrow>
        bleu_predictions (snd (evaluate_model toy_env toy_eval_dataloader 128 5 toy_world)) = [] \<and>
        bleu_references (snd (evaluate_model toy_env toy_eval_dataloader 128 5 toy_world)) = []"
    unfolding w c toy_eval_corpus by (simp_all add: toy_bleu_corpus)
  from score have "\<not> isl (fst (evaluate_model toy_env toy_eval_dataloader 128 5 toy_world))"
    by (cases "fst (evaluate_model toy_env toy_eval_dataloader 128 5 toy_world)") simp_all
  with emptied have
    "bleu_predictions (snd (evaluate_model toy_env toy_eval_dataloader 128 5 toy_world)) = []"
    "bleu_references (snd (evaluate_model toy_env toy_eval_dataloader 128 5 toy_world)) = []"
    by simp_all
  moreover have "map (\<lambda>(preds, refs). toy_bleu preds refs)
     (map (batch_scored toy_env 0 128 5) (iter_dataloader id toy_eval_dataloader)) =
     [Inr 0, Inr 100]"
    unfolding toy_eval_scored by (simp add: toy_bleu_def)
  ultimately show ?thesis using gen score toy_eval_premises toy_bleu_corpus by simp
qed

text \<open>
  The loop over the three examples ends without an error and the model is in training mode
  afterwards; the loop over the set with the unknown token id is ended by the error and the
  model stays in inference mode.
\<close>

theorem evaluate_model_training_restored_iff_witness:
  "fst (eval_loop toy_env 128 5 (iter_dataloader id toy_eval_dataloader) (0, None)
          (toy_world\<lparr>training := False\<rparr>)) =
     Inr (15, Some ([[97, 98, 99, 100, 101, 102, 103, 1]], [''abcdefg''], [[''abcdefg'']])) \<and>
   training (snd (evaluate_model toy_env toy_eval_dataloader 128 5 toy_world)) \<and>
   fst (eval_loop toy_env 128 5 (iter_dataloader id toy_bad_dataloader) (0, None)
          (toy_world\<lparr>training := False\<rparr>)) = Inl (CollaboratorError ''IndexError'') \<and>
   \<not> training (snd (evaluate_model toy_env toy_bad_dataloader 128 5 toy_world))"
  using evaluate_model_training_restored_iff
      [where C = toy_env and max_len = 128 and num_beams = 5 and dataloader = toy_eval_dataloader
         and w = toy_world]
    evaluate_model_training_restored_iff
      [where C = toy_env and max_len = 128 and num_beams = 5 and dataloader = toy_bad_dataloader
         and w = toy_world]
  unfolding toy_eval_batches toy_bad_batches
  by (simp add: toy_env_def toy_world_def toy_generate_def toy_tokenizer_def toy_ids_def
      batch_decode_def spec_utils_def postprocess_text_def Let_def char_of_def)

text \<open>
  Claim C6 does not hold of the code. The option \<^verbatim>\<open>--generation_type\<close> is read nowhere:
  a step of the training loop, evaluation included, is the same whatever its value, and
  generation is always called with \<^verbatim>\<open>num_beams = beam_size\<close>. With
  \<^verbatim>\<open>--generation_type greedy\<close> and the default beam size 5, a model that reports the kind of
  search it is asked for (greedy for one beam) reports a beam search.
\<close>

theorem generation_type_ignored:
  "train_step C (a\<lparr>arg_generation_type := g\<rparr>) eval_dataloader max_train_steps epoch b s =
     train_step C a eval_dataloader max_train_steps epoch b s \<and>
   fst (train_step
          (toy_env\<lparr>generate := \<lambda>m ids max_len num_beams.
              Inl (CollaboratorError (if num_beams = 1 then ''greedy'' else ''beam_search''))\<rparr>)
          (default_args\<lparr>arg_generation_type := Greedy, arg_eval_every_steps := 1\<rparr>)
          toy_eval_dataloader 10 0
          \<lparr>input_ids = [[97, 1]], labels = [[98, 1]], encoder_padding_mask = [[False, False]]\<rparr>
          (0, toy_world)) = Inl (CollaboratorError ''beam_search'')"
proof
  show "train_step C (a\<lparr>arg_generation_type := g\<rparr>) eval_dataloader max_train_steps epoch b s =
     train_step C a eval_dataloader max_train_steps epoch b s"
    by (simp add: train_step_def Let_def
        cong del: sum.case_cong_weak prod.case_cong_weak if_weak_cong)
next
  show "fst (train_step
          (toy_env\<lparr>generate := \<lambda>m ids max_len num_beams.
              Inl (CollaboratorError (if num_beams = 1 then ''greedy'' else ''beam_search''))\<rparr>)
          (default_args\<lparr>arg_generation_type := Greedy, arg_eval_every_steps := 1\<rparr>)
          toy_eval_dataloader 10 0
          \<lparr>input_ids = [[97, 1]], labels = [[98, 1]], encoder_padding_mask = [[False, False]]\<rparr>
          (0, toy_world)) = Inl (CollaboratorError ''beam_search'')"
    unfolding train_step_def evaluate_model_def toy_eval_batches
    by (simp add: default_args_def py_mod_def toy_env_def toy_world_def Let_def)
qed

section \<open>Properties of the loop controller\<close>










































end
